theory Spec2Isabelle
  imports Main "HOL-Library.Sublist" "HOL-Library.Log_Nat"
begin

section \<open>Wave forecast alerts: data model\<close>

text \<open>
  The repository holds two versions of one script: \<^verbatim>\<open>src/index.js\<close> (SendGrid mail, cron
  trigger, configuration from the environment) and \<^verbatim>\<open>src/unnamed/part_000\<close> (its header
  comment calls it \<^verbatim>\<open>wave-alert.js\<close>; nodemailer, fixed configuration). Their helper
  functions have the same names; where the two bodies differ the model takes the file as
  an argument.
\<close>

datatype variant = IndexJs | Part000

text \<open>
  A JavaScript number is an IEEE binary64 value. The model represents a finite one by the
  rational it denotes: comparisons of finite doubles are comparisons of these rationals.
  Epoch milliseconds, the lookahead in days and HTTP status codes are integers far below
  \<open>2 ^ 53\<close>, where double arithmetic is exact, and are modelled by \<open>int\<close> and \<open>nat\<close>.
\<close>

type_synonym number = rat

text \<open>
  An exception object: all the scripts ever read of one is its \<^verbatim>\<open>message\<close>. The kinds are
  those that reach the scripts: the \<^verbatim>\<open>Error\<close> they throw themselves for a bad status; a
  \<^verbatim>\<open>TypeError\<close>, for a property read on \<^verbatim>\<open>undefined\<close> and for a request that the built-in
  \<^verbatim>\<open>fetch\<close> of Node (which \<^verbatim>\<open>part_000\<close> calls) could not make; a \<^verbatim>\<open>FetchError\<close>, for a
  request that \<^verbatim>\<open>node-fetch\<close> (which \<^verbatim>\<open>index.js\<close> imports) could not make; a
  \<^verbatim>\<open>SyntaxError\<close>, for \<^verbatim>\<open>res.json()\<close> on a body that is not JSON.
\<close>

datatype js_error =
  Error (message: string)
| TypeError (message: string)
| FetchError (message: string)
| SyntaxError (message: string)

text \<open>\<^verbatim>\<open>{ name, lat, lon }\<close>, an entry of \<^verbatim>\<open>LOCATIONS\<close>.\<close>

record location =
  name :: string
  lat :: number
  lon :: number

text \<open>
  The parsed response body. \<^verbatim>\<open>res.json()\<close> checks no shape, so every property the
  scripts read may be absent: \<open>None\<close> is JavaScript's \<^verbatim>\<open>undefined\<close>. The two arrays may
  differ in length. Their elements are what the provider documents, time strings that
  parse as dates and numbers; a string for which \<^verbatim>\<open>new Date\<close> gives an invalid date and a
  \<^verbatim>\<open>null\<close> height are outside the model.
\<close>

record hourly_data =
  time :: "string list option"
  wave_height :: "number list option"

record forecast =
  hourly :: "hourly_data option"

text \<open>What \<^verbatim>\<open>fetch(url)\<close> resolves to: \<^verbatim>\<open>res.ok\<close>, \<^verbatim>\<open>res.status\<close> and the outcome of \<^verbatim>\<open>res.json()\<close>.\<close>

record response =
  ok :: bool
  status :: nat
  json :: "js_error + forecast"

text \<open>\<^verbatim>\<open>{ iso: time, meters: hourly.wave_height[i] }\<close>, an element of \<^verbatim>\<open>hits\<close>.\<close>

record hit =
  iso :: string
  meters :: number

text \<open>
  What the scripts take from the JavaScript runtime and from the network, as parameters:
  \<^item> \<open>now\<close>: \<^verbatim>\<open>Date.now()\<close>, held fixed during a run;
  \<^item> \<open>newDate\<close>: the epoch milliseconds of \<^verbatim>\<open>new Date(iso)\<close> for a time string of the
    provider;
  \<^item> \<open>weekdayShort\<close>: \<^verbatim>\<open>toLocaleDateString('en-IL', { weekday: 'short', timeZone: TZ })\<close>
    of a date;
  \<^item> \<open>timeHM\<close>: \<^verbatim>\<open>toLocaleTimeString('en-IL', { hour: '2-digit', minute: '2-digit', timeZone: TZ })\<close>;
  \<^item> \<open>numberToString\<close>: a number interpolated into a template literal (the shortest
    decimal that reads back as the same double);
  \<^item> \<open>fetch\<close>: the request for a latitude and a longitude (the URL is made of these two
    and the constant \<^verbatim>\<open>TZ\<close>), rejected with an error or resolved with a response.
\<close>

record runtime =
  now :: int
  newDate :: "string \<Rightarrow> int"
  weekdayShort :: "int \<Rightarrow> string"
  timeHM :: "int \<Rightarrow> string"
  numberToString :: "number \<Rightarrow> string"
  fetch :: "number \<Rightarrow> number \<Rightarrow> js_error + response"

text \<open>The configuration constants of the scripts.\<close>

record config =
  THRESHOLD_METERS :: number
  LOOKAHEAD_DAYS :: int
  LOCATIONS :: "location list"

section \<open>Strings\<close>

text \<open>
  An integer interpolated into a template literal: its decimal digits, after a minus sign
  when it is negative. (An integer of \<open>10 ^ 21\<close> or more in magnitude, which JavaScript
  writes with an exponent, is outside the model.)
\<close>

definition digit_char :: "int \<Rightarrow> char" where
  "digit_char d = char_of (48 + d)"

function digits :: "int \<Rightarrow> string" where
  "digits n = (if n < 10 then [digit_char n] else digits (n div 10) @ [digit_char (n mod 10)])"
  by pat_completeness auto
termination
  by (relation "measure nat") auto

declare digits.simps [simp del]

definition string_of_int :: "int \<Rightarrow> string" where
  "string_of_int i = (if i < 0 then ''-'' @ digits (- i) else digits i)"

definition string_of_nat :: "nat \<Rightarrow> string" where
  "string_of_nat n = digits (int n)"

text \<open>
  \<^verbatim>\<open>x.toFixed(3)\<close> for a number below \<open>10 ^ 21\<close> in magnitude: the integer \<open>n\<close> nearest to
  a thousand times the magnitude (the larger of two equally near), written with a point
  before its last three digits, after a minus sign when \<open>x\<close> is negative.
\<close>

definition fixed3_digits :: "int \<Rightarrow> string" where
  "fixed3_digits n =
     digits (n div 1000) @ ''.'' @
     [digit_char (n mod 1000 div 100), digit_char (n mod 100 div 10), digit_char (n mod 10)]"

definition toFixed3 :: "number \<Rightarrow> string" where
  "toFixed3 x = (if x < 0 then ''-'' else []) @ fixed3_digits \<lfloor>\<bar>x\<bar> * 1000 + 1 / 2\<rfloor>"

text \<open>\<^verbatim>\<open>Array.prototype.join\<close> on an array of strings.\<close>

fun join :: "string \<Rightarrow> string list \<Rightarrow> string" where
  "join sep [] = []"
| "join sep [s] = s"
| "join sep (s # t # ts) = s @ sep @ join sep (t # ts)"

text \<open>
  V8's message for a property read on \<^verbatim>\<open>undefined\<close>, with the apostrophes (character
  \<open>0x27\<close>) around the property.
\<close>

definition cannot_read :: "string \<Rightarrow> string" where
  "cannot_read prop =
     ''Cannot read properties of undefined (reading '' @ [CHR 0x27] @ prop @ [CHR 0x27] @ '')''"

section \<open>Numbers: \<^verbatim>\<open>metersToCm\<close>\<close>

text \<open>\<open>pow2 k\<close> is \<open>2\<close> to the power \<open>k\<close>, for an exponent of either sign.\<close>

definition pow2 :: "int \<Rightarrow> rat" where
  "pow2 k = (if 0 \<le> k then 2 ^ nat k else 1 / 2 ^ nat (- k))"

text \<open>
  The binary exponent of a positive rational: the greatest \<open>e\<close> with \<open>2 ^ e \<le> x\<close>
  (\<open>bitlen n\<close> is the number of binary digits of a positive integer \<open>n\<close>).
\<close>

definition ilog2 :: "rat \<Rightarrow> int" where
  "ilog2 x =
     (if 1 \<le> x then bitlen \<lfloor>x\<rfloor> - 1 else - bitlen (\<lceil>1 / x\<rceil> - 1))"

text \<open>Rounding to the nearest integer, a tie to the even one.\<close>

definition round_half_even :: "rat \<Rightarrow> int" where
  "round_half_even q =
     (let f = \<lfloor>q\<rfloor>; d = q - of_int f in
      if d < 1 / 2 then f else if 1 / 2 < d then f + 1 else if even f then f else f + 1)"

text \<open>
  \<open>fl x\<close> is the binary64 value nearest to \<open>x\<close> (53 significant bits, ties to even,
  subnormal below \<open>2 ^ -1022\<close>): what a decimal literal denotes and what an arithmetic
  operation returns for the exact result \<open>x\<close>. Overflow to \<^verbatim>\<open>Infinity\<close> (beyond about
  \<open>1.8e308\<close>) is outside the model.
\<close>

definition fl_pos :: "rat \<Rightarrow> rat" where
  "fl_pos x = (let k = max (ilog2 x - 52) (- 1074) in of_int (round_half_even (x / pow2 k)) * pow2 k)"

definition fl :: "rat \<Rightarrow> number" where
  "fl x = (if x = 0 then 0 else if x < 0 then - fl_pos (- x) else fl_pos x)"

text \<open>\<^verbatim>\<open>Math.round\<close>: the nearest integer, a tie going towards plus infinity.\<close>

definition Math_round :: "number \<Rightarrow> int" where
  "Math_round x = \<lfloor>x + 1 / 2\<rfloor>"

text \<open>\<^verbatim>\<open>const metersToCm = m => Math.round(m * 100);\<close>\<close>

definition metersToCm :: "number \<Rightarrow> int" where
  "metersToCm m = Math_round (fl (m * 100))"

section \<open>\<^verbatim>\<open>fetchWaveForecast\<close>\<close>

text \<open>
  \<^verbatim>\<open>
  const res = await fetch(url);
  if (!res.ok) throw new Error(`API error ${res.status}`);
  return res.json();
  \<close>
\<close>

definition fetchWaveForecast :: "runtime \<Rightarrow> number \<Rightarrow> number \<Rightarrow> js_error + forecast" where
  "fetchWaveForecast rt la lo =
     (case fetch rt la lo of
        Inl err \<Rightarrow> Inl err
      | Inr res \<Rightarrow>
          if \<not> ok res then Inl (Error (''API error '' @ string_of_nat (status res)))
          else json res)"

section \<open>\<^verbatim>\<open>nextExceedances\<close>\<close>

text \<open>\<^verbatim>\<open>const cutoff = now + daysAhead * 24 * 3600 * 1000;\<close>\<close>

definition cutoff :: "int \<Rightarrow> int \<Rightarrow> int" where
  "cutoff nw daysAhead = nw + daysAhead * 24 * 3600 * 1000"

text \<open>\<^verbatim>\<open>arr[i]\<close>: \<^verbatim>\<open>undefined\<close> past the end of the array.\<close>

definition at_index :: "'a list \<Rightarrow> nat \<Rightarrow> 'a option" where
  "at_index xs i = (if i < length xs then Some (xs ! i) else None)"

text \<open>
  The callback of \<^verbatim>\<open>hourly.time.forEach\<close> in \<^verbatim>\<open>src/index.js\<close>, run from index \<open>i\<close> over
  the rest of the times, \<open>hits\<close> being the array pushed to so far:
  \<^verbatim>\<open>
  const t = new Date(time);
  if (t > cutoff) return;
  if (hourly.wave_height[i] >= threshold) hits.push({ iso: time, meters: hourly.wave_height[i] });
  \<close>
  Reading index \<open>i\<close> of an absent \<^verbatim>\<open>wave_height\<close> throws; an \<^verbatim>\<open>undefined\<close> element compares
  false with every threshold.
\<close>

fun forEach_hour ::
  "runtime \<Rightarrow> number list option \<Rightarrow> number \<Rightarrow> int \<Rightarrow> string list \<Rightarrow> nat \<Rightarrow> hit list
   \<Rightarrow> js_error + hit list" where
  "forEach_hour rt wh threshold c [] i hits = Inr hits"
| "forEach_hour rt wh threshold c (tm # rest) i hits =
     (if newDate rt tm > c then forEach_hour rt wh threshold c rest (Suc i) hits
      else case wh of
        None \<Rightarrow> Inl (TypeError (cannot_read (string_of_nat i)))
      | Some hs \<Rightarrow>
          (case at_index hs i of
             None \<Rightarrow> forEach_hour rt wh threshold c rest (Suc i) hits
           | Some h \<Rightarrow>
               if h \<ge> threshold
               then forEach_hour rt wh threshold c rest (Suc i) (hits @ [\<lparr>iso = tm, meters = h\<rparr>])
               else forEach_hour rt wh threshold c rest (Suc i) hits))"

text \<open>
  The \<^verbatim>\<open>for\<close> loop of \<^verbatim>\<open>src/unnamed/part_000\<close>, which leaves at the first time past the
  cutoff:
  \<^verbatim>\<open>
  const t = new Date(hourly.time[i]);
  if (t > cutoff) break;
  if (hourly.wave_height[i] >= threshold) {
    hits.push({ iso: hourly.time[i], meters: hourly.wave_height[i] });
  }
  \<close>
\<close>

fun for_hour ::
  "runtime \<Rightarrow> number list option \<Rightarrow> number \<Rightarrow> int \<Rightarrow> string list \<Rightarrow> nat \<Rightarrow> hit list
   \<Rightarrow> js_error + hit list" where
  "for_hour rt wh threshold c [] i hits = Inr hits"
| "for_hour rt wh threshold c (tm # rest) i hits =
     (if newDate rt tm > c then Inr hits
      else case wh of
        None \<Rightarrow> Inl (TypeError (cannot_read (string_of_nat i)))
      | Some hs \<Rightarrow>
          (case at_index hs i of
             None \<Rightarrow> for_hour rt wh threshold c rest (Suc i) hits
           | Some h \<Rightarrow>
               if h \<ge> threshold
               then for_hour rt wh threshold c rest (Suc i) (hits @ [\<lparr>iso = tm, meters = h\<rparr>])
               else for_hour rt wh threshold c rest (Suc i) hits))"

text \<open>
  \<^verbatim>\<open>nextExceedances(hourly, threshold, daysAhead)\<close>. Reading \<^verbatim>\<open>hourly.time\<close> of an absent
  \<^verbatim>\<open>hourly\<close> throws; so does \<^verbatim>\<open>.forEach\<close> (index.js) or \<^verbatim>\<open>.length\<close> (part_000) of an
  absent \<^verbatim>\<open>time\<close>.
\<close>

definition nextExceedances ::
  "variant \<Rightarrow> runtime \<Rightarrow> hourly_data option \<Rightarrow> number \<Rightarrow> int \<Rightarrow> js_error + hit list" where
  "nextExceedances v rt hourly_opt threshold daysAhead =
     (let c = cutoff (now rt) daysAhead in
      case hourly_opt of
        None \<Rightarrow> Inl (TypeError (cannot_read ''time''))
      | Some h \<Rightarrow>
          (case time h of
             None \<Rightarrow> Inl (TypeError (cannot_read (case v of IndexJs \<Rightarrow> ''forEach'' | Part000 \<Rightarrow> ''length'')))
           | Some ts \<Rightarrow>
               (case v of
                  IndexJs \<Rightarrow> forEach_hour rt (wave_height h) threshold c ts 0 []
                | Part000 \<Rightarrow> for_hour rt (wave_height h) threshold c ts 0 [])))"

text \<open>The input hour at one index, as the hit the detector would push for it.\<close>

definition hit_of :: "string \<times> number \<Rightarrow> hit" where
  "hit_of p = \<lparr>iso = fst p, meters = snd p\<rparr>"

section \<open>\<^verbatim>\<open>checkLocation\<close>\<close>

text \<open>
  The two non-ASCII signs of the template literals, as the bytes each file stores: in
  \<^verbatim>\<open>part_000\<close> the UTF-8 encodings of U+2265 (greater-than or equal to) and U+1F30A (water
  wave), in \<^verbatim>\<open>index.js\<close> the same two signs encoded twice (seven and eight bytes).
\<close>

definition geq_sign :: "variant \<Rightarrow> string" where
  "geq_sign v =
     (case v of
        IndexJs \<Rightarrow> [CHR 0xC3, CHR 0xA2, CHR 0xE2, CHR 0x80, CHR 0xB0, CHR 0xC2, CHR 0xA5]
      | Part000 \<Rightarrow> [CHR 0xE2, CHR 0x89, CHR 0xA5])"

definition wave_sign :: "variant \<Rightarrow> string" where
  "wave_sign v =
     (case v of
        IndexJs \<Rightarrow> [CHR 0xC3, CHR 0xB0, CHR 0xC5, CHR 0xB8, CHR 0xC5, CHR 0x92, CHR 0xC5, CHR 0xA0]
      | Part000 \<Rightarrow> [CHR 0xF0, CHR 0x9F, CHR 0x8C, CHR 0x8A])"

text \<open>
  \<^verbatim>\<open>`[${loc.name}] No waves (sign) ${THRESHOLD_METERS}m in next ${LOOKAHEAD_DAYS} days`\<close>
\<close>

definition no_waves_line :: "variant \<Rightarrow> runtime \<Rightarrow> config \<Rightarrow> location \<Rightarrow> string" where
  "no_waves_line v rt cfg loc =
     ''['' @ name loc @ ''] No waves '' @ geq_sign v @ '' '' @
     numberToString rt (THRESHOLD_METERS cfg) @ ''m in next '' @
     string_of_int (LOOKAHEAD_DAYS cfg) @ '' days''"

text \<open>\<^verbatim>\<open>`[${loc.name}] Error: ${err.message}`\<close>\<close>

definition error_line :: "location \<Rightarrow> js_error \<Rightarrow> string" where
  "error_line loc err = ''['' @ name loc @ ''] Error: '' @ message err"

text \<open>
  The day label of a hit:
  \<^verbatim>\<open>new Date(h.iso).toLocaleDateString('en-IL', { weekday: 'short', timeZone: TZ })\<close>.
\<close>

definition day_of :: "runtime \<Rightarrow> hit \<Rightarrow> string" where
  "day_of rt h = weekdayShort rt (newDate rt (iso h))"

text \<open>
  \<^verbatim>\<open>grouped\<close> is an object used as a dictionary. \<^verbatim>\<open>Object.entries\<close> lists string keys that
  are not array indices in the order of their first insertion, and weekday labels are
  such keys: the model is an association list with a new key added at the end.
  One step, \<^verbatim>\<open>acc[day] = acc[day] || []; acc[day].push(h);\<close>:
\<close>

definition bucket_push :: "(string \<times> hit list) list \<Rightarrow> string \<Rightarrow> hit \<Rightarrow> (string \<times> hit list) list" where
  "bucket_push acc day h =
     (case map_of acc day of
        None \<Rightarrow> acc @ [(day, [h])]
      | Some arr \<Rightarrow> map (\<lambda>(k, a). if k = day then (k, a @ [h]) else (k, a)) acc)"

definition grouped :: "runtime \<Rightarrow> hit list \<Rightarrow> (string \<times> hit list) list" where
  "grouped rt hits = foldl (\<lambda>acc h. bucket_push acc (day_of rt h) h) [] hits"

text \<open>
  \<^verbatim>\<open>arr.reduce(f)\<close> with no initial value: the fold starts from the first element, and an
  empty array throws.
\<close>

definition reduce :: "('a \<Rightarrow> 'a \<Rightarrow> 'a) \<Rightarrow> 'a list \<Rightarrow> js_error + 'a" where
  "reduce f xs =
     (case xs of
        [] \<Rightarrow> Inl (TypeError ''Reduce of empty array with no initial value'')
      | x # rest \<Rightarrow> Inr (foldl f x rest))"

text \<open>\<^verbatim>\<open>(a, b) => (a.meters > b.meters ? a : b)\<close>\<close>

definition higher :: "hit \<Rightarrow> hit \<Rightarrow> hit" where
  "higher a b = (if meters a > meters b then a else b)"

definition fmtHourLocal :: "runtime \<Rightarrow> string \<Rightarrow> string" where
  "fmtHourLocal rt i = timeHM rt (newDate rt i)"

text \<open>
  The callback mapped over \<^verbatim>\<open>Object.entries(grouped)\<close>:
  \<^verbatim>\<open>
  const max = arr.reduce((a, b) => (a.meters > b.meters ? a : b));
  return `- ${day}: peak ~${metersToCm(max.meters)} cm at ${fmtHourLocal(max.iso)}`;
  \<close>
\<close>

definition peak_line :: "runtime \<Rightarrow> string \<times> hit list \<Rightarrow> js_error + string" where
  "peak_line rt e =
     (case reduce higher (snd e) of
        Inl err \<Rightarrow> Inl err
      | Inr mx \<Rightarrow>
          Inr (''- '' @ fst e @ '': peak ~'' @ string_of_int (metersToCm (meters mx)) @
               '' cm at '' @ fmtHourLocal rt (iso mx)))"

text \<open>
  A list of outcomes taken in order, the first failure ending it: \<^verbatim>\<open>map\<close> with a callback
  that throws, a loop of \<^verbatim>\<open>await\<close>s, and \<^verbatim>\<open>Promise.all\<close> (which rejects as soon as one of
  its promises does).
\<close>

fun all_or_first :: "(js_error + 'a) list \<Rightarrow> js_error + 'a list" where
  "all_or_first [] = Inr []"
| "all_or_first (Inl err # rs) = Inl err"
| "all_or_first (Inr x # rs) = (case all_or_first rs of Inl err \<Rightarrow> Inl err | Inr xs \<Rightarrow> Inr (x # xs))"

text \<open>The first two lines of a report with hits.\<close>

definition header_line :: "variant \<Rightarrow> location \<Rightarrow> string" where
  "header_line v loc =
     wave_sign v @ '' '' @ name loc @ '' (Lat/Lon: '' @ toFixed3 (lat loc) @ '', '' @
     toFixed3 (lon loc) @ '')''"

definition threshold_line :: "config \<Rightarrow> string" where
  "threshold_line cfg =
     ''Threshold: '' @ string_of_int (Math_round (fl (THRESHOLD_METERS cfg * 100))) @ '' cm''"

text \<open>The body of the \<^verbatim>\<open>try\<close> block of \<^verbatim>\<open>checkLocation\<close>: \<open>Inl\<close> is an exception leaving it.\<close>

definition checkLocation_try :: "variant \<Rightarrow> runtime \<Rightarrow> config \<Rightarrow> location \<Rightarrow> js_error + string" where
  "checkLocation_try v rt cfg loc =
     (case fetchWaveForecast rt (lat loc) (lon loc) of
        Inl err \<Rightarrow> Inl err
      | Inr fc \<Rightarrow>
          (case nextExceedances v rt (hourly fc) (THRESHOLD_METERS cfg) (LOOKAHEAD_DAYS cfg) of
             Inl err \<Rightarrow> Inl err
           | Inr hits \<Rightarrow>
               if hits = [] then Inr (no_waves_line v rt cfg loc)
               else
                 (case all_or_first (map (peak_line rt) (grouped rt hits)) of
                    Inl err \<Rightarrow> Inl err
                  | Inr lines \<Rightarrow>
                      Inr (join [CHR 0x0A] ([header_line v loc, threshold_line cfg] @ lines)))))"

text \<open>
  \<^verbatim>\<open>checkLocation\<close>: the \<^verbatim>\<open>try\<close> block and its handler,
  \<^verbatim>\<open>catch (err) { return `[${loc.name}] Error: ${err.message}`; }\<close>.
  The result is the outcome of the promise the \<^verbatim>\<open>async\<close> function returns.
\<close>

definition checkLocation :: "variant \<Rightarrow> runtime \<Rightarrow> config \<Rightarrow> location \<Rightarrow> js_error + string" where
  "checkLocation v rt cfg loc =
     (case checkLocation_try v rt cfg loc of
        Inl err \<Rightarrow> Inr (error_line loc err)
      | Inr report \<Rightarrow> Inr report)"

section \<open>\<^verbatim>\<open>runOnce\<close>\<close>



section \<open>A sample run\<close>

text \<open>
  Concrete data for evaluating the functions: the three locations that \<^verbatim>\<open>part_000\<close>
  configures, its threshold and lookahead, and a runtime whose zone is UTC. The clock
  stands at Monday 2025-01-06 00:00, so with two days of lookahead the cutoff is Wednesday
  00:00.
\<close>

definition sample_times :: "(string \<times> int) list" where
  "sample_times =
     [(''2025-01-06T06:00'', 1736143200000), (''2025-01-06T07:00'', 1736146800000),
      (''2025-01-07T06:00'', 1736229600000), (''2025-01-09T06:00'', 1736402400000),
      (''2025-01-13T06:00'', 1736748000000)]"

definition utc_weekday :: "int \<Rightarrow> string" where
  "utc_weekday ms =
     [''Thu'', ''Fri'', ''Sat'', ''Sun'', ''Mon'', ''Tue'', ''Wed''] ! nat (ms div 86400000 mod 7)"

definition two_digits :: "int \<Rightarrow> string" where
  "two_digits n = [digit_char (n div 10 mod 10), digit_char (n mod 10)]"

definition utc_hour_minute :: "int \<Rightarrow> string" where
  "utc_hour_minute ms =
     two_digits (ms div 3600000 mod 24) @ '':'' @ two_digits (ms div 60000 mod 60)"

definition sample_runtime :: "(number \<Rightarrow> number \<Rightarrow> js_error + response) \<Rightarrow> runtime" where
  "sample_runtime net =
     \<lparr>now = 1736121600000,
      newDate = (\<lambda>s. case map_of sample_times s of Some t \<Rightarrow> t | None \<Rightarrow> 0),
      weekdayShort = utc_weekday,
      timeHM = utc_hour_minute,
      numberToString = (\<lambda>x. if x = fl (4 / 5) then ''0.8'' else ''?''),
      fetch = net\<rparr>"

definition tel_aviv :: location where
  "tel_aviv = \<lparr>name = ''Tel Aviv'', lat = fl (320809 / 10000), lon = fl (347806 / 10000)\<rparr>"

definition haifa :: location where
  "haifa = \<lparr>name = ''Haifa'', lat = fl (32794 / 1000), lon = fl (349896 / 10000)\<rparr>"

definition ashdod :: location where
  "ashdod = \<lparr>name = ''Ashdod'', lat = fl (318014 / 10000), lon = fl (346435 / 10000)\<rparr>"

definition sample_config :: config where
  "sample_config =
     \<lparr>THRESHOLD_METERS = fl (4 / 5), LOOKAHEAD_DAYS = 2, LOCATIONS = [tel_aviv, haifa, ashdod]\<rparr>"

text \<open>
  Five hours: Monday 06:00 and 07:00, Tuesday 06:00, then Thursday and the Monday after,
  both past the cutoff.
\<close>

definition rough_hourly :: hourly_data where
  "rough_hourly =
     \<lparr>time = Some (map fst sample_times),
      wave_height = Some [fl (6 / 5), fl (19 / 20), fl (201 / 200), 2, 3]\<rparr>"

definition calm_hourly :: hourly_data where
  "calm_hourly =
     \<lparr>time = Some (map fst sample_times),
      wave_height = Some [fl (1 / 2), fl (3 / 5), fl (79 / 100), 2, 3]\<rparr>"

definition resolved :: "hourly_data option \<Rightarrow> js_error + response" where
  "resolved h = Inr \<lparr>ok = True, status = 200, json = Inr \<lparr>hourly = h\<rparr>\<rparr>"

text \<open>
  A network that answers Tel Aviv with the rough series, Haifa with status 500 and an
  empty body, and every other place with the calm series.
\<close>

definition sample_net :: "number \<Rightarrow> number \<Rightarrow> js_error + response" where
  "sample_net la lo =
     (if la = lat tel_aviv then resolved (Some rough_hourly)
      else if la = lat haifa
      then Inr \<lparr>ok = False, status = 500, json = Inl (SyntaxError ''Unexpected end of JSON input'')\<rparr>
      else resolved (Some calm_hourly))"

text \<open>A network whose answer is valid JSON with no \<^verbatim>\<open>hourly\<close> property.\<close>

definition shapeless_net :: "number \<Rightarrow> number \<Rightarrow> js_error + response" where
  "shapeless_net la lo = resolved None"

text \<open>A series whose heights stop after the first hour, and a network that serves it.\<close>

definition ragged_hourly :: hourly_data where
  "ragged_hourly = \<lparr>time = Some (map fst sample_times), wave_height = Some [fl (6 / 5)]\<rparr>"

definition ragged_net :: "number \<Rightarrow> number \<Rightarrow> js_error + response" where
  "ragged_net la lo = resolved (Some ragged_hourly)"

text \<open>
  A network out of reach, under \<^verbatim>\<open>part_000\<close>: the built-in \<^verbatim>\<open>fetch\<close> rejects with a
  \<^verbatim>\<open>TypeError\<close> whose message is \<^verbatim>\<open>fetch failed\<close>.
\<close>

definition offline_net :: "number \<Rightarrow> number \<Rightarrow> js_error + response" where
  "offline_net la lo = Inl (TypeError ''fetch failed'')"

text \<open>A series with its times and no \<^verbatim>\<open>wave_height\<close>, and a network that serves it.\<close>

definition heightless_hourly :: hourly_data where
  "heightless_hourly = \<lparr>time = Some (map fst sample_times), wave_height = None\<rparr>"

definition heightless_net :: "number \<Rightarrow> number \<Rightarrow> js_error + response" where
  "heightless_net la lo = resolved (Some heightless_hourly)"

text \<open>The bucket of a day in a dictionary under construction, empty when the day is new.\<close>

definition bucket :: "(string \<times> hit list) list \<Rightarrow> string \<Rightarrow> hit list" where
  "bucket acc k = (case map_of acc k of None \<Rightarrow> [] | Some a \<Rightarrow> a)"

section \<open>The two loops of the detector\<close>

text \<open>
  With both arrays present neither loop throws. The scan of \<^verbatim>\<open>index.js\<close> keeps the hours
  that pass both tests; the loop of \<^verbatim>\<open>part_000\<close> keeps those of them that come before the
  first time past the cutoff. An hour with no height (the heights being the shorter array)
  is never kept: \<open>zip\<close> ends with the shorter list.
\<close>

lemma forEach_hour_Some:
  "forEach_hour rt (Some hs) thr c ts i hits =
     Inr (hits @ map hit_of (filter (\<lambda>p. thr \<le> snd p \<and> newDate rt (fst p) \<le> c) (zip ts (drop i hs))))"
proof (induction ts arbitrary: i hits)
  case Nil
  show ?case by simp
next
  case (Cons tm rest)
  show ?case
  proof (cases "i < length hs")
    case True
    then have d: "drop i hs = hs ! i # drop (Suc i) hs"
      by (simp add: Cons_nth_drop_Suc)
    from True show ?thesis
      by (simp add: Cons d at_index_def hit_of_def not_less)
  next
    case False
    then show ?thesis
      by (simp add: Cons at_index_def)
  qed
qed

lemma for_hour_Some:
  "for_hour rt (Some hs) thr c ts i hits =
     Inr (hits @ map hit_of (filter (\<lambda>p. thr \<le> snd p)
        (takeWhile (\<lambda>p. newDate rt (fst p) \<le> c) (zip ts (drop i hs)))))"
proof (induction ts arbitrary: i hits)
  case Nil
  show ?case by simp
next
  case (Cons tm rest)
  show ?case
  proof (cases "i < length hs")
    case True
    then have d: "drop i hs = hs ! i # drop (Suc i) hs"
      by (simp add: Cons_nth_drop_Suc)
    from True show ?thesis
      by (simp add: Cons d at_index_def hit_of_def not_less)
  next
    case False
    then show ?thesis
      by (simp add: Cons at_index_def)
  qed
qed

lemma forEach_hour_all_past:
  "\<forall>t \<in> set ts. c < newDate rt t \<Longrightarrow> forEach_hour rt wh thr c ts i hits = Inr hits"
  by (induction ts arbitrary: i) auto

lemma for_hour_sorted:
  "sorted (map (newDate rt) ts) \<Longrightarrow>
   for_hour rt wh thr c ts i hits = forEach_hour rt wh thr c ts i hits"
proof (induction ts arbitrary: i hits)
  case Nil
  show ?case by simp
next
  case (Cons tm rest)
  show ?case
  proof (cases "c < newDate rt tm")
    case True
    with Cons.prems have "\<forall>t \<in> set rest. c < newDate rt t"
      by auto
    then show ?thesis using True
      by (simp add: forEach_hour_all_past)
  next
    case False
    with Cons show ?thesis
      by (auto split: option.splits)
  qed
qed

text \<open>
  With the heights absent, the scan throws at the first hour that is not past the cutoff,
  wherever it stands; the loop of \<^verbatim>\<open>part_000\<close> throws only if that hour is the first one.
\<close>

lemma forEach_hour_None:
  "forEach_hour rt None thr c ts i hits =
     (if \<forall>t \<in> set ts. c < newDate rt t then Inr hits
      else Inl (TypeError (cannot_read
             (string_of_nat (i + length (takeWhile (\<lambda>t. c < newDate rt t) ts))))))"
  by (induction ts arbitrary: i) simp_all

lemma for_hour_None:
  "for_hour rt None thr c ts i hits =
     (case ts of
        [] \<Rightarrow> Inr hits
      | tm # rest \<Rightarrow>
          if c < newDate rt tm then Inr hits else Inl (TypeError (cannot_read (string_of_nat i))))"
  by (cases ts) simp_all

lemma string_of_nat_0: "string_of_nat 0 = ''0''"
  by code_simp

section \<open>Peak of a bucket, buckets of a hit list\<close>

lemma foldl_higher_last_max:
  "(foldl higher a xs = a \<and> (\<forall>h \<in> set xs. meters h < meters a)) \<or>
   (\<exists>pre post. xs = pre @ foldl higher a xs # post \<and>
      (\<forall>h \<in> set post. meters h < meters (foldl higher a xs)))"
proof (induction xs arbitrary: a)
  case Nil
  show ?case by simp
next
  case (Cons y ys)
  let ?p = "foldl higher (higher a y) ys"
  from Cons.IH [of "higher a y"]
  consider (acc) "?p = higher a y" "\<forall>h \<in> set ys. meters h < meters (higher a y)"
    | (later) pre post where "ys = pre @ ?p # post" "\<forall>h \<in> set post. meters h < meters ?p"
    by blast
  then show ?case
  proof cases
    case acc
    show ?thesis
    proof (cases "meters a > meters y")
      case True
      then have "higher a y = a" by (simp add: higher_def)
      with acc True show ?thesis by simp
    next
      case False
      then have "higher a y = y" by (simp add: higher_def)
      with acc have "y # ys = [] @ foldl higher a (y # ys) # ys"
        and "\<forall>h \<in> set ys. meters h < meters (foldl higher a (y # ys))"
        by simp_all
      then show ?thesis by blast
    qed
  next
    case later
    then have "y # ys = (y # pre) @ foldl higher a (y # ys) # post"
      and "\<forall>h \<in> set post. meters h < meters (foldl higher a (y # ys))"
      by simp_all
    then show ?thesis by blast
  qed
qed

lemma foldl_higher_ge:
  "meters a \<le> meters (foldl higher a xs) \<and> (\<forall>h \<in> set xs. meters h \<le> meters (foldl higher a xs))"
proof (induction xs arbitrary: a)
  case Nil
  show ?case by simp
next
  case (Cons y ys)
  have "meters a \<le> meters (higher a y)" "meters y \<le> meters (higher a y)"
    by (simp_all add: higher_def)
  with Cons.IH [of "higher a y"] show ?case
    by (auto intro: order_trans)
qed

lemma reduce_higher_last_max:
  assumes "arr \<noteq> []"
  shows "\<exists>p pre post. reduce higher arr = Inr p \<and> arr = pre @ p # post \<and>
           (\<forall>h \<in> set pre. meters h \<le> meters p) \<and> (\<forall>h \<in> set post. meters h < meters p)"
proof -
  from assms obtain x xs where arr: "arr = x # xs"
    by (cases arr) auto
  let ?p = "foldl higher x xs"
  have r: "reduce higher arr = Inr ?p"
    by (simp add: arr reduce_def)
  have ge: "\<forall>h \<in> set arr. meters h \<le> meters ?p"
    using foldl_higher_ge [of x xs] by (simp add: arr)
  from foldl_higher_last_max [of x xs]
  have "\<exists>pre post. arr = pre @ ?p # post \<and> (\<forall>h \<in> set post. meters h < meters ?p)"
  proof
    assume "?p = x \<and> (\<forall>h \<in> set xs. meters h < meters x)"
    then have "arr = [] @ ?p # xs" "\<forall>h \<in> set xs. meters h < meters ?p"
      by (simp_all add: arr)
    then show ?thesis by blast
  next
    assume "\<exists>pre post. xs = pre @ ?p # post \<and> (\<forall>h \<in> set post. meters h < meters ?p)"
    then obtain pre post where "xs = pre @ ?p # post" "\<forall>h \<in> set post. meters h < meters ?p"
      by blast
    then have "arr = (x # pre) @ ?p # post" "\<forall>h \<in> set post. meters h < meters ?p"
      by (simp_all add: arr)
    then show ?thesis by blast
  qed
  then obtain pre post where sp: "arr = pre @ ?p # post" "\<forall>h \<in> set post. meters h < meters ?p"
    by blast
  from ge sp(1) have "\<forall>h \<in> set pre. meters h \<le> meters ?p"
    by (metis Un_iff set_append)
  with r sp show ?thesis by blast
qed

lemma map_of_append_at:
  "map_of (map (\<lambda>(k, a). if k = d then (k, a @ [h]) else (k, a)) acc) k =
     (if k = d then map_option (\<lambda>a. a @ [h]) (map_of acc k) else map_of acc k)"
  by (induction acc) auto

lemma fst_append_at:
  "map fst (map (\<lambda>(k, a). if k = d then (k, a @ [h]) else (k, a)) acc) = map fst acc"
  by (induction acc) auto

lemma bucket_push_keys:
  "map fst (bucket_push acc d h) = (if d \<in> set (map fst acc) then map fst acc else map fst acc @ [d])"
proof (cases "map_of acc d")
  case None
  then have "d \<notin> set (map fst acc)"
    by (simp add: map_of_eq_None_iff)
  with None show ?thesis
    by (simp add: bucket_push_def)
next
  case (Some arr)
  then have "d \<in> set (map fst acc)"
    by (metis map_of_eq_None_iff option.distinct(1) set_map)
  with Some show ?thesis
    by (auto simp: bucket_push_def)
qed

lemma bucket_push_distinct:
  "distinct (map fst acc) \<Longrightarrow> distinct (map fst (bucket_push acc d h))"
  by (simp add: bucket_push_keys)

lemma bucket_push_lookup:
  "map_of (bucket_push acc d h) k = (if k = d then Some (bucket acc d @ [h]) else map_of acc k)"
proof (cases "map_of acc d")
  case None
  then show ?thesis
    by (auto simp: bucket_push_def bucket_def map_add_def split: option.splits)
next
  case (Some arr)
  then show ?thesis
    by (simp add: bucket_push_def bucket_def map_of_append_at)
qed

lemma foldl_push_distinct:
  "distinct (map fst acc) \<Longrightarrow>
   distinct (map fst (foldl (\<lambda>acc h. bucket_push acc (day_of rt h) h) acc hs))"
  by (induction hs arbitrary: acc) (simp_all add: bucket_push_distinct)

lemma foldl_push_lookup:
  "map_of (foldl (\<lambda>acc h. bucket_push acc (day_of rt h) h) acc hs) k =
     (if map_of acc k = None \<and> filter (\<lambda>h. day_of rt h = k) hs = [] then None
      else Some (bucket acc k @ filter (\<lambda>h. day_of rt h = k) hs))"
proof (induction hs arbitrary: acc)
  case Nil
  show ?case by (auto simp: bucket_def)
next
  case (Cons x xs)
  show ?case
    by (simp add: Cons bucket_push_lookup bucket_def)
qed

lemma grouped_distinct: "distinct (map fst (grouped rt hits))"
  by (simp add: grouped_def foldl_push_distinct)

lemma grouped_lookup:
  "map_of (grouped rt hits) k =
     (if filter (\<lambda>h. day_of rt h = k) hits = [] then None
      else Some (filter (\<lambda>h. day_of rt h = k) hits))"
  by (simp add: grouped_def foldl_push_lookup bucket_def)

lemma grouped_entry:
  "(k, arr) \<in> set (grouped rt hits) \<longleftrightarrow>
     arr \<noteq> [] \<and> arr = filter (\<lambda>h. day_of rt h = k) hits"
  using map_of_eq_Some_iff [OF grouped_distinct, of rt hits k arr]
  by (auto simp: grouped_lookup split: if_splits)

section \<open>Order of the hits\<close>

lemma sorted_map_subseq:
  "subseq xs ys \<Longrightarrow> sorted (map f ys) \<Longrightarrow> sorted (map f xs)"
proof (induction rule: list_emb.induct)
  case (list_emb_Nil ys)
  show ?case by simp
next
  case (list_emb_Cons xs ys y)
  then show ?case by simp
next
  case (list_emb_Cons2 x y xs ys)
  then have "set xs \<subseteq> set ys"
    using list_emb_set [of "(=)" xs ys] by auto
  with list_emb_Cons2 show ?case by auto
qed

lemma sorted_hits_of_input:
  assumes "sorted (map (newDate rt) ts)" and "subseq hits (map hit_of (zip ts hs))"
  shows "sorted (map (\<lambda>h. newDate rt (iso h)) hits)"
proof -
  have "map (\<lambda>h. newDate rt (iso h)) (map hit_of (zip ts hs)) = map (newDate rt) (map fst (zip ts hs))"
    by (simp add: hit_of_def)
  also have "\<dots> = take (length hs) (map (newDate rt) ts)"
    by (simp add: map_fst_zip_take take_map min_def)
  finally have "sorted (map (\<lambda>h. newDate rt (iso h)) (map hit_of (zip ts hs)))"
    using assms(1) by (simp add: sorted_wrt_take)
  with assms(2) show ?thesis
    by (rule sorted_map_subseq)
qed

section \<open>The detector on a series with both arrays\<close>

lemma nextExceedances_scan:
  "nextExceedances IndexJs rt (Some \<lparr>time = Some ts, wave_height = Some hs\<rparr>) thr d =
     Inr (map hit_of (filter (\<lambda>p. thr \<le> snd p \<and> newDate rt (fst p) \<le> cutoff (now rt) d) (zip ts hs)))"
  by (simp add: nextExceedances_def forEach_hour_Some)

lemma nextExceedances_early_exit:
  "nextExceedances Part000 rt (Some \<lparr>time = Some ts, wave_height = Some hs\<rparr>) thr d =
     Inr (map hit_of (filter (\<lambda>p. thr \<le> snd p)
        (takeWhile (\<lambda>p. newDate rt (fst p) \<le> cutoff (now rt) d) (zip ts hs))))"
  by (simp add: nextExceedances_def for_hour_Some)

lemma no_hits:
  assumes "\<forall>p \<in> set (zip ts hs). \<not> (thr \<le> snd p \<and> newDate rt (fst p) \<le> cutoff (now rt) d)"
  shows "nextExceedances v rt (Some \<lparr>time = Some ts, wave_height = Some hs\<rparr>) thr d = Inr []"
proof (cases v)
  case IndexJs
  from assms have "filter (\<lambda>p. thr \<le> snd p \<and> newDate rt (fst p) \<le> cutoff (now rt) d) (zip ts hs) = []"
    by (simp add: filter_empty_conv)
  with IndexJs show ?thesis
    by (simp add: nextExceedances_scan)
next
  case Part000
  have "\<not> thr \<le> snd p"
    if "p \<in> set (takeWhile (\<lambda>p. newDate rt (fst p) \<le> cutoff (now rt) d) (zip ts hs))" for p
    using assms set_takeWhileD [OF that] by blast
  then have "filter (\<lambda>p. thr \<le> snd p)
      (takeWhile (\<lambda>p. newDate rt (fst p) \<le> cutoff (now rt) d) (zip ts hs)) = []"
    by (simp add: filter_empty_conv)
  with Part000 show ?thesis
    by (simp add: nextExceedances_early_exit)
qed

section \<open>The reporter\<close>




lemma peak_line_of_bucket:
  assumes "arr \<noteq> []"
  shows "\<exists>p. reduce higher arr = Inr p \<and> p \<in> set arr \<and> (\<forall>h \<in> set arr. meters h \<le> meters p) \<and>
           peak_line rt (day, arr) =
             Inr (''- '' @ day @ '': peak ~'' @ string_of_int (metersToCm (meters p)) @
                  '' cm at '' @ fmtHourLocal rt (iso p))"
proof -
  from reduce_higher_last_max [OF assms]
  obtain p pre post where p: "reduce higher arr = Inr p" "arr = pre @ p # post"
    "\<forall>h \<in> set pre. meters h \<le> meters p" "\<forall>h \<in> set post. meters h < meters p"
    by blast
  from p(2) have "p \<in> set arr"
    by simp
  moreover from p(2-4) have "\<forall>h \<in> set arr. meters h \<le> meters p"
    by auto
  moreover from p(1) have "peak_line rt (day, arr) =
      Inr (''- '' @ day @ '': peak ~'' @ string_of_int (metersToCm (meters p)) @
           '' cm at '' @ fmtHourLocal rt (iso p))"
    by (simp add: peak_line_def)
  ultimately show ?thesis
    using p(1) by blast
qed

lemma checkLocation_no_hits:
  assumes "fetch rt (lat loc) (lon loc) = Inr res" and "ok res" and "json res = Inr fc"
    and "hourly fc = Some \<lparr>time = Some ts, wave_height = Some hs\<rparr>"
    and "\<forall>p \<in> set (zip ts hs).
           \<not> (THRESHOLD_METERS cfg \<le> snd p \<and>
              newDate rt (fst p) \<le> cutoff (now rt) (LOOKAHEAD_DAYS cfg))"
  shows "checkLocation v rt cfg loc = Inr (no_waves_line v rt cfg loc)"
  using assms(1-4) no_hits [OF assms(5), of v]
  by (simp add: checkLocation_def checkLocation_try_def fetchWaveForecast_def)

section \<open>Facts of the sample run\<close>

lemma sample_times_ascending:
  "sorted (map (newDate (sample_runtime net)) (map fst sample_times))"
  by (simp add: sample_runtime_def sample_times_def)

lemma rough_hits:
  "nextExceedances IndexJs (sample_runtime net) (Some rough_hourly) (fl (4 / 5)) 2 =
     Inr [\<lparr>iso = ''2025-01-06T06:00'', meters = fl (6 / 5)\<rparr>,
          \<lparr>iso = ''2025-01-06T07:00'', meters = fl (19 / 20)\<rparr>,
          \<lparr>iso = ''2025-01-07T06:00'', meters = fl (201 / 200)\<rparr>]"
  by code_simp





lemma two_mondays:
  "day_of (sample_runtime net) \<lparr>iso = ''2025-01-06T06:00'', meters = 1\<rparr> = ''Mon''"
  "day_of (sample_runtime net) \<lparr>iso = ''2025-01-13T06:00'', meters = 2\<rparr> = ''Mon''"
  "newDate (sample_runtime net) ''2025-01-13T06:00'' - newDate (sample_runtime net) ''2025-01-06T06:00''
     = 7 * 24 * 3600 * 1000"
  by code_simp+

lemma ashdod_fetch:
  "fetch (sample_runtime sample_net) (lat ashdod) (lon ashdod) =
     Inr \<lparr>ok = True, status = 200, json = Inr \<lparr>hourly = Some calm_hourly\<rparr>\<rparr>"
  by code_simp

lemma haifa_fetch:
  "fetch (sample_runtime sample_net) (lat haifa) (lon haifa) =
     Inr \<lparr>ok = False, status = 500, json = Inl (SyntaxError ''Unexpected end of JSON input'')\<rparr>"
  by code_simp

lemma tel_aviv_fetch:
  "fetch (sample_runtime sample_net) (lat tel_aviv) (lon tel_aviv) =
     Inr \<lparr>ok = True, status = 200, json = Inr \<lparr>hourly = Some rough_hourly\<rparr>\<rparr>"
  by code_simp

lemma heightless_scan:
  "nextExceedances IndexJs (sample_runtime net) (Some heightless_hourly) (fl (4 / 5)) 2 =
     Inl (TypeError (cannot_read ''0''))"
  by code_simp

lemma status_500: "string_of_nat 500 = ''500''"
  by code_simp

lemma calm_no_hour:
  "\<forall>p \<in> set (zip (map fst sample_times) [fl (1 / 2), fl (3 / 5), fl (79 / 100), 2, 3]).
     \<not> (THRESHOLD_METERS sample_config \<le> snd p \<and>
        newDate (sample_runtime net) (fst p) \<le> cutoff (now (sample_runtime net)) (LOOKAHEAD_DAYS sample_config))"
  by code_simp

lemma sample_no_waves_text:
  "no_waves_line v (sample_runtime net) sample_config ashdod =
     ''[Ashdod] No waves '' @ geq_sign v @ '' 0.8m in next 2 days''"
proof -
  have "numberToString (sample_runtime net) (THRESHOLD_METERS sample_config) = ''0.8''"
    by (simp add: sample_runtime_def sample_config_def)
  moreover have "string_of_int (LOOKAHEAD_DAYS sample_config) = ''2''"
    by code_simp
  moreover have "name ashdod = ''Ashdod''"
    by (simp add: ashdod_def)
  ultimately show ?thesis
    by (simp add: no_waves_line_def)
qed

lemma ashdod_report:
  "checkLocation v (sample_runtime sample_net) sample_config ashdod =
     Inr (''[Ashdod] No waves '' @ geq_sign v @ '' 0.8m in next 2 days'')"
  using checkLocation_no_hits [OF ashdod_fetch _ _ _ calm_no_hour, of "\<lparr>hourly = Some calm_hourly\<rparr>" v]
  by (simp add: calm_hourly_def sample_no_waves_text)


section \<open>The claims\<close>

subsection \<open>C1: the hits are the hours that pass both tests\<close>



subsection \<open>C2: one report for each location\<close>



subsection \<open>C3: buckets by weekday label\<close>

text \<open>
  Claim C3. For every hit list, grouping looks at nothing but the short weekday label: two
  hits of the list with the same label are in one bucket, the bucket under that label,
  which holds exactly the hits of the list with that label, in their order; no other
  bucket holds either of them; and the line of that bucket shows a peak that is at least
  as high as both. This holds however far apart the two hits are, so also a week apart.
\<close>

theorem same_weekday_same_bucket:
  assumes "h1 \<in> set hits" and "h2 \<in> set hits" and "day_of rt h1 = day_of rt h2"
  shows "\<exists>arr p.
     (day_of rt h1, arr) \<in> set (grouped rt hits) \<and>
     arr = filter (\<lambda>h. day_of rt h = day_of rt h1) hits \<and>
     h1 \<in> set arr \<and> h2 \<in> set arr \<and>
     (\<forall>e \<in> set (grouped rt hits). h1 \<in> set (snd e) \<or> h2 \<in> set (snd e) \<longrightarrow> e = (day_of rt h1, arr)) \<and>
     reduce higher arr = Inr p \<and> meters h1 \<le> meters p \<and> meters h2 \<le> meters p \<and>
     peak_line rt (day_of rt h1, arr) =
       Inr (''- '' @ day_of rt h1 @ '': peak ~'' @ string_of_int (metersToCm (meters p)) @
            '' cm at '' @ fmtHourLocal rt (iso p))"
proof -
  let ?d = "day_of rt h1"
  let ?arr = "filter (\<lambda>h. day_of rt h = ?d) hits"
  from assms have in1: "h1 \<in> set ?arr" and in2: "h2 \<in> set ?arr"
    by simp_all
  from in1 have ne: "?arr \<noteq> []"
    by (metis empty_iff empty_set)
  then have entry: "(?d, ?arr) \<in> set (grouped rt hits)"
    by (simp add: grouped_entry)
  have only: "\<forall>e \<in> set (grouped rt hits). h1 \<in> set (snd e) \<or> h2 \<in> set (snd e) \<longrightarrow> e = (?d, ?arr)"
  proof
    fix e
    assume e: "e \<in> set (grouped rt hits)"
    obtain k a where ka: "e = (k, a)"
      by (cases e)
    with e have a: "a = filter (\<lambda>h. day_of rt h = k) hits"
      by (simp add: grouped_entry)
    show "h1 \<in> set (snd e) \<or> h2 \<in> set (snd e) \<longrightarrow> e = (?d, ?arr)"
      using assms(3) by (auto simp: ka a)
  qed
  from peak_line_of_bucket [OF ne, of rt ?d]
  obtain p where p: "reduce higher ?arr = Inr p" "\<forall>h \<in> set ?arr. meters h \<le> meters p"
    "peak_line rt (?d, ?arr) =
       Inr (''- '' @ ?d @ '': peak ~'' @ string_of_int (metersToCm (meters p)) @
            '' cm at '' @ fmtHourLocal rt (iso p))"
    by blast
  from p(2) in1 in2 have "meters h1 \<le> meters p" "meters h2 \<le> meters p"
    by blast+
  with entry in1 in2 only p(1,3) show ?thesis
    by blast
qed

text \<open>Monday 2025-01-06 and Monday 2025-01-13, seven days apart, share the bucket \<open>Mon\<close>.\<close>

theorem same_weekday_same_bucket_witness:
  "day_of (sample_runtime sample_net) \<lparr>iso = ''2025-01-06T06:00'', meters = 1\<rparr> =
     day_of (sample_runtime sample_net) \<lparr>iso = ''2025-01-13T06:00'', meters = 2\<rparr> \<and>
   newDate (sample_runtime sample_net) ''2025-01-13T06:00'' -
     newDate (sample_runtime sample_net) ''2025-01-06T06:00'' = 7 * 24 * 3600 * 1000 \<and>
   (\<exists>arr p.
      (''Mon'', arr) \<in> set (grouped (sample_runtime sample_net)
         [\<lparr>iso = ''2025-01-06T06:00'', meters = 1\<rparr>, \<lparr>iso = ''2025-01-07T06:00'', meters = 1\<rparr>,
          \<lparr>iso = ''2025-01-13T06:00'', meters = 2\<rparr>]) \<and>
      \<lparr>iso = ''2025-01-06T06:00'', meters = 1\<rparr> \<in> set arr \<and>
      \<lparr>iso = ''2025-01-13T06:00'', meters = 2\<rparr> \<in> set arr \<and>
      reduce higher arr = Inr p \<and> 2 \<le> meters p)"
proof -
  let ?rt = "sample_runtime sample_net"
  let ?h1 = "\<lparr>iso = ''2025-01-06T06:00'', meters = 1\<rparr>"
  let ?h2 = "\<lparr>iso = ''2025-01-13T06:00'', meters = 2\<rparr>"
  let ?hits = "[?h1, \<lparr>iso = ''2025-01-07T06:00'', meters = 1\<rparr>, ?h2]"
  have d: "day_of ?rt ?h1 = day_of ?rt ?h2"
    by (simp only: two_mondays)
  have apart: "newDate ?rt ''2025-01-13T06:00'' - newDate ?rt ''2025-01-06T06:00'' = 7 * 24 * 3600 * 1000"
    by (rule two_mondays)
  have m1: "?h1 \<in> set ?hits" and m2: "?h2 \<in> set ?hits"
    by simp_all
  from same_weekday_same_bucket [OF m1 m2 d]
  obtain arr p where r: "(day_of ?rt ?h1, arr) \<in> set (grouped ?rt ?hits)"
    "?h1 \<in> set arr" "?h2 \<in> set arr" "reduce higher arr = Inr p" "meters ?h2 \<le> meters p"
    by blast
  from r(1) have "(''Mon'', arr) \<in> set (grouped ?rt ?hits)"
    by (simp only: two_mondays)
  moreover from r(5) have "2 \<le> meters p"
    by simp
  ultimately have "\<exists>arr p. (''Mon'', arr) \<in> set (grouped ?rt ?hits) \<and> ?h1 \<in> set arr \<and>
      ?h2 \<in> set arr \<and> reduce higher arr = Inr p \<and> 2 \<le> meters p"
    using r(2-4) by blast
  with d apart show ?thesis
    by blast
qed

subsection \<open>C4: what \<^verbatim>\<open>fetchWaveForecast\<close> rejects\<close>

text \<open>
  Claim C4, as the code has it. \<^verbatim>\<open>fetchWaveForecast\<close> fails in three cases. When \<^verbatim>\<open>fetch\<close>
  itself rejects, it fails with that error, unchanged, of whatever kind. When the status is
  not a success, it fails with the \<^verbatim>\<open>Error\<close> whose message is \<^verbatim>\<open>API error\<close> and the status.
  When the status is a success, its outcome is the outcome of \<^verbatim>\<open>res.json()\<close>: the error of
  the parser, unchanged, or the parsed body as it is. It checks no shape. A missing
  \<^verbatim>\<open>hourly\<close> or \<^verbatim>\<open>time\<close> is met later, by \<^verbatim>\<open>nextExceedances\<close>, as a \<^verbatim>\<open>TypeError\<close>. So is a
  missing \<^verbatim>\<open>wave_height\<close>, when the loop comes to read a height: in \<^verbatim>\<open>index.js\<close> if some
  hour is not past the cutoff (the error names the index of the first such hour), in
  \<^verbatim>\<open>part_000\<close> if the first hour is not past the cutoff; otherwise nothing is raised and
  there is no hit. Arrays of different lengths raise nothing at all.
\<close>

theorem fetchWaveForecast_outcomes:
  "(fetch rt la lo = Inl err \<longrightarrow> fetchWaveForecast rt la lo = Inl err) \<and>
   (fetch rt la lo = Inr res \<and> \<not> ok res \<longrightarrow>
      fetchWaveForecast rt la lo = Inl (Error (''API error '' @ string_of_nat (status res)))) \<and>
   (fetch rt la lo = Inr res \<and> ok res \<longrightarrow> fetchWaveForecast rt la lo = json res) \<and>
   nextExceedances v rt None threshold daysAhead = Inl (TypeError (cannot_read ''time'')) \<and>
   (time h = None \<longrightarrow>
      nextExceedances v rt (Some h) threshold daysAhead =
        Inl (TypeError (cannot_read (case v of IndexJs \<Rightarrow> ''forEach'' | Part000 \<Rightarrow> ''length'')))) \<and>
   nextExceedances IndexJs rt (Some \<lparr>time = Some ts, wave_height = None\<rparr>) threshold daysAhead =
     (if \<forall>t \<in> set ts. cutoff (now rt) daysAhead < newDate rt t then Inr []
      else Inl (TypeError (cannot_read (string_of_nat
             (length (takeWhile (\<lambda>t. cutoff (now rt) daysAhead < newDate rt t) ts)))))) \<and>
   nextExceedances Part000 rt (Some \<lparr>time = Some ts, wave_height = None\<rparr>) threshold daysAhead =
     (case ts of
        [] \<Rightarrow> Inr []
      | tm # rest \<Rightarrow>
          if cutoff (now rt) daysAhead < newDate rt tm then Inr []
          else Inl (TypeError (cannot_read ''0''))) \<and>
   (\<exists>hits. nextExceedances v rt (Some \<lparr>time = Some ts, wave_height = Some hs\<rparr>) threshold daysAhead = Inr hits)"
proof -
  have rejected: "fetch rt la lo = Inl err \<longrightarrow> fetchWaveForecast rt la lo = Inl err"
    by (simp add: fetchWaveForecast_def)
  have bad_status: "fetch rt la lo = Inr res \<and> \<not> ok res \<longrightarrow>
      fetchWaveForecast rt la lo = Inl (Error (''API error '' @ string_of_nat (status res)))"
    by (simp add: fetchWaveForecast_def)
  have parsed: "fetch rt la lo = Inr res \<and> ok res \<longrightarrow> fetchWaveForecast rt la lo = json res"
    by (simp add: fetchWaveForecast_def)
  have no_hourly: "nextExceedances v rt None threshold daysAhead = Inl (TypeError (cannot_read ''time''))"
    by (simp add: nextExceedances_def)
  have no_time: "time h = None \<longrightarrow>
      nextExceedances v rt (Some h) threshold daysAhead =
        Inl (TypeError (cannot_read (case v of IndexJs \<Rightarrow> ''forEach'' | Part000 \<Rightarrow> ''length'')))"
    by (simp add: nextExceedances_def)
  have no_height_scan:
    "nextExceedances IndexJs rt (Some \<lparr>time = Some ts, wave_height = None\<rparr>) threshold daysAhead =
     (if \<forall>t \<in> set ts. cutoff (now rt) daysAhead < newDate rt t then Inr []
      else Inl (TypeError (cannot_read (string_of_nat
             (length (takeWhile (\<lambda>t. cutoff (now rt) daysAhead < newDate rt t) ts))))))"
    by (simp add: nextExceedances_def forEach_hour_None Let_def)
  have no_height_exit:
    "nextExceedances Part000 rt (Some \<lparr>time = Some ts, wave_height = None\<rparr>) threshold daysAhead =
     (case ts of
        [] \<Rightarrow> Inr []
      | tm # rest \<Rightarrow>
          if cutoff (now rt) daysAhead < newDate rt tm then Inr []
          else Inl (TypeError (cannot_read ''0'')))"
    by (cases ts) (simp_all add: nextExceedances_def string_of_nat_0 Let_def)
  have ragged: "\<exists>hits. nextExceedances v rt (Some \<lparr>time = Some ts, wave_height = Some hs\<rparr>) threshold daysAhead = Inr hits"
    by (cases v) (simp_all add: nextExceedances_scan nextExceedances_early_exit)
  from rejected bad_status parsed no_hourly no_time no_height_scan no_height_exit ragged
  show ?thesis
    by (intro conjI)
qed

text \<open>
  The three failures on the sample networks: a request that could not be made, a status
  500, and (the status being 200) the body as parsed; then a payload with no \<^verbatim>\<open>time\<close> and
  one with no \<^verbatim>\<open>wave_height\<close>, which fail only in the detector.
\<close>

theorem fetchWaveForecast_outcomes_witness:
  "fetchWaveForecast (sample_runtime offline_net) (lat haifa) (lon haifa) =
     Inl (TypeError ''fetch failed'') \<and>
   fetchWaveForecast (sample_runtime sample_net) (lat haifa) (lon haifa) = Inl (Error ''API error 500'') \<and>
   fetchWaveForecast (sample_runtime sample_net) (lat tel_aviv) (lon tel_aviv) =
     Inr \<lparr>hourly = Some rough_hourly\<rparr> \<and>
   nextExceedances IndexJs (sample_runtime sample_net) (Some \<lparr>time = None, wave_height = None\<rparr>) (fl (4 / 5)) 2 =
     Inl (TypeError (cannot_read ''forEach'')) \<and>
   nextExceedances IndexJs (sample_runtime sample_net) (Some heightless_hourly) (fl (4 / 5)) 2 =
     Inl (TypeError (cannot_read ''0''))"
proof -
  have off: "fetch (sample_runtime offline_net) (lat haifa) (lon haifa) = Inl (TypeError ''fetch failed'')"
    by (simp add: sample_runtime_def offline_net_def)
  show ?thesis
    using fetchWaveForecast_outcomes [of "sample_runtime offline_net" "lat haifa" "lon haifa"
        "TypeError ''fetch failed''"] off
      fetchWaveForecast_outcomes [of "sample_runtime sample_net" "lat haifa" "lon haifa" _
        "\<lparr>ok = False, status = 500, json = Inl (SyntaxError ''Unexpected end of JSON input'')\<rparr>"] haifa_fetch
      fetchWaveForecast_outcomes [of "sample_runtime sample_net" "lat tel_aviv" "lon tel_aviv" _
        "\<lparr>ok = True, status = 200, json = Inr \<lparr>hourly = Some rough_hourly\<rparr>\<rparr>"] tel_aviv_fetch
      fetchWaveForecast_outcomes [where v = IndexJs and rt = "sample_runtime sample_net"
        and threshold = "fl (4 / 5)" and daysAhead = 2 and h = "\<lparr>time = None, wave_height = None\<rparr>"]
      heightless_scan [of sample_net]
    by (simp add: status_500)
qed

text \<open>
  The specification has the fetch fail on a body with no \<^verbatim>\<open>hourly\<close>, on one with no
  \<^verbatim>\<open>wave_height\<close> and on arrays of different lengths. It returns the three bodies.
\<close>

theorem fetch_accepts_any_shape:
  "fetchWaveForecast (sample_runtime shapeless_net) (lat haifa) (lon haifa) = Inr \<lparr>hourly = None\<rparr> \<and>
   fetchWaveForecast (sample_runtime heightless_net) (lat haifa) (lon haifa) =
     Inr \<lparr>hourly = Some \<lparr>time = Some (map fst sample_times), wave_height = None\<rparr>\<rparr> \<and>
   fetchWaveForecast (sample_runtime ragged_net) (lat haifa) (lon haifa) =
     Inr \<lparr>hourly = Some \<lparr>time = Some (map fst sample_times), wave_height = Some [fl (6 / 5)]\<rparr>\<rparr>"
  by (simp add: fetchWaveForecast_def sample_runtime_def shapeless_net_def ragged_net_def
      heightless_net_def resolved_def ragged_hourly_def heightless_hourly_def)

subsection \<open>C5: centimetres\<close>

text \<open>
  Claim C5, as the code has it. \<^verbatim>\<open>metersToCm\<close> maps 0.8 metres to 80 cm and 1.005 metres to
  100 cm. The number 1.005 is the double \<open>1131529406376837 / 2 ^ 50\<close>, a little below
  1.005; its product with 100, rounded to a double, is \<open>7072058789855231 / 2 ^ 46\<close>, one
  unit in the last place below 100.5, and \<^verbatim>\<open>Math.round\<close> takes that down.
\<close>

theorem metersToCm_samples:
  "metersToCm (fl (4 / 5)) = 80 \<and> metersToCm (fl (201 / 200)) = 100"
  by code_simp

text \<open>The claim as stated fails at 1.005.\<close>

text \<open>The specification has 101 cm for 1.005 metres.\<close>

theorem metersToCm_1005_is_not_101: "metersToCm (fl (201 / 200)) \<noteq> 101"
  by code_simp

subsection \<open>C6: the peak of a bucket\<close>

text \<open>
  Claim C6, as the code has it. For every non-empty bucket, peak selection returns a hit
  of the greatest height, and among hits of equal greatest height the one met last: no
  hit before it in the bucket is higher, and every hit after it is strictly lower. The
  callback \<^verbatim>\<open>(a, b) => (a.meters > b.meters ? a : b)\<close> keeps the accumulated \<open>a\<close> only when it
  is strictly higher, so on equal heights the later hit \<open>b\<close> replaces it.
\<close>

theorem peak_is_last_highest:
  assumes "arr \<noteq> []"
  shows "\<exists>p pre post. reduce higher arr = Inr p \<and> arr = pre @ p # post \<and>
           (\<forall>h \<in> set pre. meters h \<le> meters p) \<and> (\<forall>h \<in> set post. meters h < meters p)"
  using assms by (rule reduce_higher_last_max)

theorem peak_is_last_highest_witness:
  "[\<lparr>iso = ''2025-01-06T06:00'', meters = 1\<rparr>, \<lparr>iso = ''2025-01-06T07:00'', meters = 1\<rparr>] \<noteq> [] \<and>
   (\<exists>p pre post.
      reduce higher [\<lparr>iso = ''2025-01-06T06:00'', meters = 1\<rparr>, \<lparr>iso = ''2025-01-06T07:00'', meters = 1\<rparr>] = Inr p \<and>
      [\<lparr>iso = ''2025-01-06T06:00'', meters = 1\<rparr>, \<lparr>iso = ''2025-01-06T07:00'', meters = 1\<rparr>] = pre @ p # post \<and>
      (\<forall>h \<in> set pre. meters h \<le> meters p) \<and> (\<forall>h \<in> set post. meters h < meters p))"
  using peak_is_last_highest
    [of "[\<lparr>iso = ''2025-01-06T06:00'', meters = 1\<rparr>, \<lparr>iso = ''2025-01-06T07:00'', meters = 1\<rparr>]"]
  by simp

text \<open>
  The claim as stated fails on a bucket of two hits one metre high, at 06:00 and at 07:00:
  the peak is the hit of 07:00.
\<close>

text \<open>
  The specification has the first of two equal hits win. On a bucket of two hits one
  metre high, at 06:00 and at 07:00, the peak is the hit of 07:00.
\<close>

theorem peak_tie_keeps_later:
  "reduce higher [\<lparr>iso = ''2025-01-06T06:00'', meters = 1\<rparr>, \<lparr>iso = ''2025-01-06T07:00'', meters = 1\<rparr>]
     = Inr \<lparr>iso = ''2025-01-06T07:00'', meters = 1\<rparr> \<and>
   reduce higher [\<lparr>iso = ''2025-01-06T06:00'', meters = 1\<rparr>, \<lparr>iso = ''2025-01-06T07:00'', meters = 1\<rparr>]
     \<noteq> Inr \<lparr>iso = ''2025-01-06T06:00'', meters = 1\<rparr>"
  by (simp add: reduce_def higher_def)

subsection \<open>C7: the two detectors\<close>

text \<open>
  Claim C7. For every hourly series whose timestamps are in ascending order, the detector
  of \<^verbatim>\<open>src/index.js\<close>, which scans the whole series and skips each time past the cutoff,
  and the detector of \<^verbatim>\<open>src/unnamed/part_000\<close>, which stops at the first time past the
  cutoff, return the same hit list. The heights may be of any length, or absent: then
  both throw the same error, or both return no hit.
\<close>

theorem detectors_agree_on_ascending:
  "sorted (map (newDate rt) ts) \<Longrightarrow>
   nextExceedances Part000 rt (Some \<lparr>time = Some ts, wave_height = wh\<rparr>) threshold daysAhead =
   nextExceedances IndexJs rt (Some \<lparr>time = Some ts, wave_height = wh\<rparr>) threshold daysAhead"
  by (simp add: nextExceedances_def for_hour_sorted)

theorem detectors_agree_on_ascending_witness:
  "sorted (map (newDate (sample_runtime sample_net)) (map fst sample_times)) \<and>
   nextExceedances Part000 (sample_runtime sample_net) (Some rough_hourly) (fl (4 / 5)) 2 =
     Inr [\<lparr>iso = ''2025-01-06T06:00'', meters = fl (6 / 5)\<rparr>,
          \<lparr>iso = ''2025-01-06T07:00'', meters = fl (19 / 20)\<rparr>,
          \<lparr>iso = ''2025-01-07T06:00'', meters = fl (201 / 200)\<rparr>]"
  using detectors_agree_on_ascending [OF sample_times_ascending, of sample_net
      "Some [fl (6 / 5), fl (19 / 20), fl (201 / 200), 2, 3]" "fl (4 / 5)" 2]
    sample_times_ascending [of sample_net] rough_hits [of sample_net]
  by (simp add: rough_hourly_def)

subsection \<open>C8: the hits keep the order of the input\<close>

text \<open>
  Claim C8. For every hourly series, in either file, the hit list is a subsequence of the
  input hours: the hits stand in the order of the hours they come from, equal times
  included. So when the times of the input are ascending, the times of the hits are in
  non-decreasing order.
\<close>

theorem hits_subseq_of_input:
  "\<exists>hits. nextExceedances v rt (Some \<lparr>time = Some ts, wave_height = Some hs\<rparr>) threshold daysAhead = Inr hits \<and>
      subseq hits (map hit_of (zip ts hs)) \<and>
      (sorted (map (newDate rt) ts) \<longrightarrow> sorted (map (\<lambda>h. newDate rt (iso h)) hits))"
proof (cases v)
  case IndexJs
  let ?hits = "map hit_of (filter (\<lambda>p. threshold \<le> snd p \<and> newDate rt (fst p) \<le> cutoff (now rt) daysAhead) (zip ts hs))"
  have sub: "subseq ?hits (map hit_of (zip ts hs))"
    by (simp add: subseq_map)
  then have "sorted (map (newDate rt) ts) \<longrightarrow> sorted (map (\<lambda>h. newDate rt (iso h)) ?hits)"
    using sorted_hits_of_input by blast
  with sub IndexJs show ?thesis
    by (simp only: nextExceedances_scan) blast
next
  case Part000
  let ?near = "takeWhile (\<lambda>p. newDate rt (fst p) \<le> cutoff (now rt) daysAhead) (zip ts hs)"
  let ?hits = "map hit_of (filter (\<lambda>p. threshold \<le> snd p) ?near)"
  have "subseq (filter (\<lambda>p. threshold \<le> snd p) ?near) ?near"
    by simp
  moreover have "subseq ?near (zip ts hs)"
    using takeWhile_is_prefix by (rule prefix_imp_subseq)
  ultimately have "subseq (filter (\<lambda>p. threshold \<le> snd p) ?near) (zip ts hs)"
    by (rule subseq_order.trans)
  then have sub: "subseq ?hits (map hit_of (zip ts hs))"
    by (rule subseq_map)
  then have "sorted (map (newDate rt) ts) \<longrightarrow> sorted (map (\<lambda>h. newDate rt (iso h)) ?hits)"
    using sorted_hits_of_input by blast
  with sub Part000 show ?thesis
    by (simp only: nextExceedances_early_exit) blast
qed

theorem hits_subseq_of_input_witness:
  "sorted (map (newDate (sample_runtime sample_net)) (map fst sample_times)) \<and>
   (\<exists>hits. nextExceedances IndexJs (sample_runtime sample_net) (Some rough_hourly) (fl (4 / 5)) 2 = Inr hits \<and>
      subseq hits (map hit_of (zip (map fst sample_times) [fl (6 / 5), fl (19 / 20), fl (201 / 200), 2, 3])) \<and>
      sorted (map (\<lambda>h. newDate (sample_runtime sample_net) (iso h)) hits))"
  using hits_subseq_of_input [of IndexJs "sample_runtime sample_net" "map fst sample_times"
      "[fl (6 / 5), fl (19 / 20), fl (201 / 200), 2, 3]" "fl (4 / 5)" 2]
    sample_times_ascending [of sample_net]
  by (simp add: rough_hourly_def)

subsection \<open>C9: the report of a calm location\<close>

text \<open>
  Claim C9, as the code has it. When the fetch succeeds and no hour of the series is both
  at or above the threshold and within the lookahead, \<^verbatim>\<open>checkLocation\<close> returns exactly one
  line: the name in brackets, \<^verbatim>\<open>No waves\<close>, the sign stored in the template literal (U+2265
  in \<^verbatim>\<open>part_000\<close>), the threshold as JavaScript writes the number, \<^verbatim>\<open>m in next\<close>, the
  lookahead and \<^verbatim>\<open>days\<close>.
\<close>

theorem no_hits_report:
  assumes "fetch rt (lat loc) (lon loc) = Inr res" and "ok res" and "json res = Inr fc"
    and "hourly fc = Some \<lparr>time = Some ts, wave_height = Some hs\<rparr>"
    and "\<forall>p \<in> set (zip ts hs).
           \<not> (THRESHOLD_METERS cfg \<le> snd p \<and>
              newDate rt (fst p) \<le> cutoff (now rt) (LOOKAHEAD_DAYS cfg))"
  shows "checkLocation v rt cfg loc =
     Inr (''['' @ name loc @ ''] No waves '' @ geq_sign v @ '' '' @
          numberToString rt (THRESHOLD_METERS cfg) @ ''m in next '' @
          string_of_int (LOOKAHEAD_DAYS cfg) @ '' days'')"
  using checkLocation_no_hits [OF assms, of v]
  by (simp add: no_waves_line_def)

theorem no_hits_report_witness:
  "checkLocation Part000 (sample_runtime sample_net) sample_config ashdod =
     Inr (''[Ashdod] No waves '' @ [CHR 0xE2, CHR 0x89, CHR 0xA5] @ '' 0.8m in next 2 days'')"
proof -
  have "checkLocation Part000 (sample_runtime sample_net) sample_config ashdod =
     Inr (''['' @ name ashdod @ ''] No waves '' @ geq_sign Part000 @ '' '' @
          numberToString (sample_runtime sample_net) (THRESHOLD_METERS sample_config) @ ''m in next '' @
          string_of_int (LOOKAHEAD_DAYS sample_config) @ '' days'')"
    using no_hits_report [OF ashdod_fetch _ _ _ calm_no_hour, of "\<lparr>hourly = Some calm_hourly\<rparr>" Part000]
    by (simp add: calm_hourly_def)
  then show ?thesis
    using sample_no_waves_text [of Part000 sample_net]
    by (simp add: no_waves_line_def geq_sign_def)
qed

text \<open>
  The specification writes the line with the two ASCII characters \<^verbatim>\<open>>=\<close>. Neither file
  returns that string.
\<close>

theorem no_waves_line_is_not_ascii:
  "checkLocation Part000 (sample_runtime sample_net) sample_config ashdod \<noteq>
     Inr ''[Ashdod] No waves >= 0.8m in next 2 days'' \<and>
   checkLocation IndexJs (sample_runtime sample_net) sample_config ashdod \<noteq>
     Inr ''[Ashdod] No waves >= 0.8m in next 2 days''"
  by (simp add: ashdod_report geq_sign_def)

subsection \<open>C10: \<^verbatim>\<open>checkLocation\<close> never throws\<close>



end
